theory Spec2Isabelle
  imports Main "HOL-Library.Monad_Syntax"
begin

section \<open>Basic types\<close>

text \<open>
  \<^verbatim>\<open>page_id_t\<close> and \<^verbatim>\<open>frame_id_t\<close> are declared in \<^verbatim>\<open>common/config.h\<close>, which is not
  among the sources; they are 4-byte signed integers there (the page headers say
  \<open>PageId(4)\<close>). Here they are integers, and the one place where the code does
  arithmetic on a page id, the increment of the counter in \<^verbatim>\<open>AllocatePage\<close>, wraps
  around as the 4-byte counter does: after 2147483647 comes -2147483648. Keys are
  integer keys compared by the integer order (the comparator answers \<open>-1\<close>, \<open>0\<close> or
  \<open>1\<close>), values stand for record ids.
\<close>

type_synonym page_id_t = int
type_synonym frame_id_t = int
type_synonym KeyType = int
type_synonym ValueType = int

definition INVALID_PAGE_ID :: page_id_t where
  "INVALID_PAGE_ID = - 1"

definition HEADER_PAGE_ID :: page_id_t where
  "HEADER_PAGE_ID = 0"

definition wrap_page_id :: "int \<Rightarrow> page_id_t" where
  "wrap_page_id x = (x + 2147483648) mod 4294967296 - 2147483648"

definition comparator :: "KeyType \<Rightarrow> KeyType \<Rightarrow> int" where
  "comparator a b = (if a < b then - 1 else if b < a then 1 else 0)"

section \<open>Page contents\<close>

text \<open>
  A page's bytes are read through \<^verbatim>\<open>reinterpret_cast\<close> as a leaf page, an internal page
  or the header page. The model keeps the variant with the contents: \<open>ZeroPage\<close> is
  the memory after \<^verbatim>\<open>ResetMemory\<close>. The arrays hold the entries in use, so that
  \<^verbatim>\<open>GetSize\<close> of a leaf is the length of its array; an internal page with \<open>n\<close> keys holds
  \<open>n + 1\<close> slots, slot 0 carrying the leading child pointer (its key is unused).
\<close>

record LeafPage =
  l_max_size :: int
  l_parent_page_id :: page_id_t
  l_page_id :: page_id_t
  l_next_page_id :: page_id_t
  l_prev_page_id :: page_id_t
  l_array :: "(KeyType \<times> ValueType) list"

record InternalPage =
  i_max_size :: int
  i_parent_page_id :: page_id_t
  i_page_id :: page_id_t
  i_array :: "(KeyType \<times> page_id_t) list"

datatype page_data =
  ZeroPage
  | LeafData LeafPage
  | InternalData InternalPage
  | HeaderData "(string \<times> page_id_t) list"

section \<open>The buffer pool\<close>

text \<open>
  Modelled from the spec: the class \<^verbatim>\<open>Page\<close> (\<^verbatim>\<open>storage/page/page.h\<close>) is not among the
  sources. Section 3 gives it a data buffer and the metadata \<open>page_id\<close>, \<open>pin_count\<close>
  and \<open>is_dirty\<close>.
\<close>

record Page =
  data :: page_data
  page_id :: page_id_t
  pin_count :: int
  is_dirty :: bool

text \<open>
  Modelled from the spec: the LRU-K replacer (\<^verbatim>\<open>buffer/lru_k_replacer.h\<close>) is not among
  the sources. Section 4.1: per frame the timestamps of its last \<open>K\<close> accesses (most
  recent first here) and an evictable flag; a logical clock that every \<open>RecordAccess\<close>
  advances; \<open>Evict\<close> picks, among the evictable frames, the one with the largest
  backward K-distance (infinite with fewer than \<open>K\<close> accesses), ties broken by the
  oldest earliest-recorded access, and answers nothing when no frame is evictable;
  \<open>Remove\<close> drops all state of a frame.
\<close>

record ReplacerEntry =
  history :: "nat list"
  evictable :: bool

record LRUKReplacer =
  replacer_k :: nat
  current_timestamp :: nat
  entries :: "(frame_id_t \<times> ReplacerEntry) list"

definition RecordAccess :: "frame_id_t \<Rightarrow> LRUKReplacer \<Rightarrow> LRUKReplacer" where
  "RecordAccess f r =
     (let ts = current_timestamp r;
          e = (case map_of (entries r) f of
                 None \<Rightarrow> \<lparr>history = [ts], evictable = False\<rparr>
               | Some e \<Rightarrow> e\<lparr>history := take (replacer_k r) (ts # history e)\<rparr>)
      in r\<lparr>current_timestamp := ts + 1,
            entries := (f, e) # filter (\<lambda>p. fst p \<noteq> f) (entries r)\<rparr>)"

definition SetEvictable :: "frame_id_t \<Rightarrow> bool \<Rightarrow> LRUKReplacer \<Rightarrow> LRUKReplacer" where
  "SetEvictable f b r =
     r\<lparr>entries := map (\<lambda>p. if fst p = f then (fst p, (snd p)\<lparr>evictable := b\<rparr>) else p)
                       (entries r)\<rparr>"

definition ReplacerRemove :: "frame_id_t \<Rightarrow> LRUKReplacer \<Rightarrow> LRUKReplacer" where
  "ReplacerRemove f r = r\<lparr>entries := filter (\<lambda>p. fst p \<noteq> f) (entries r)\<rparr>"

text \<open>
  The rank of an entry: frames with fewer than \<open>K\<close> accesses come first, by their
  earliest recorded access; the others follow by their \<open>K\<close>-th most recent access
  (the smaller the timestamp, the larger the backward K-distance).
\<close>

definition evict_rank :: "nat \<Rightarrow> ReplacerEntry \<Rightarrow> nat \<times> nat" where
  "evict_rank k e =
     (if length (history e) < k \<or> k = 0
      then (0, if history e = [] then 0 else last (history e))
      else (1, history e ! (k - 1)))"

definition rank_less :: "nat \<times> nat \<Rightarrow> nat \<times> nat \<Rightarrow> bool" where
  "rank_less a b = (fst a < fst b \<or> (fst a = fst b \<and> snd a < snd b))"

fun best_victim :: "nat \<Rightarrow> (frame_id_t \<times> ReplacerEntry) \<Rightarrow> (frame_id_t \<times> ReplacerEntry) list
    \<Rightarrow> frame_id_t" where
  "best_victim k b [] = fst b"
| "best_victim k b (p # ps) =
     (if rank_less (evict_rank k (snd p)) (evict_rank k (snd b))
      then best_victim k p ps else best_victim k b ps)"

definition evictable_frames :: "LRUKReplacer \<Rightarrow> (frame_id_t \<times> ReplacerEntry) list" where
  "evictable_frames r = filter (\<lambda>p. evictable (snd p)) (entries r)"

definition Evict :: "LRUKReplacer \<Rightarrow> (frame_id_t \<times> LRUKReplacer) option" where
  "Evict r =
     (case evictable_frames r of
        [] \<Rightarrow> None
      | c # cs \<Rightarrow>
          (let f = best_victim (replacer_k r) c cs
           in Some (f, ReplacerRemove f r)))"

text \<open>
  What the pool does to the world outside its own fields, in the order it does it:
  the device's writes and reads, the zeroing of a frame's memory, the deallocation of
  a page id.
\<close>

datatype event =
  EvWritePage page_id_t page_data
  | EvReadPage page_id_t
  | EvResetMemory frame_id_t
  | EvDeallocatePage page_id_t

text \<open>
  The fields of \<^verbatim>\<open>BufferPoolManagerInstance\<close>. \<open>pages\<close> is the frame array, read by
  pointer arithmetic \<^verbatim>\<open>pages_ + frame\<close>; a \<^verbatim>\<open>Page *\<close> is the frame's index, \<open>None\<close> is
  \<^verbatim>\<open>nullptr\<close>.

  Modelled from the spec: the page table (\<^verbatim>\<open>ExtendibleHashTable\<close>) and the disk manager
  are not among the sources. Section 4.2 makes the page table a mapping from page id
  to frame id with \<open>Insert\<close>, \<open>Find\<close> and \<open>Remove\<close>; section 6 makes the device a store of
  blocks by page id with \<open>ReadPage\<close> and \<open>WritePage\<close>, and \<open>Deallocate\<close> a hint.
\<close>

record BufferPoolManagerInstance =
  pool_size :: nat
  pages :: "frame_id_t \<Rightarrow> Page"
  page_table :: "page_id_t \<rightharpoonup> frame_id_t"
  replacer :: LRUKReplacer
  free_list :: "frame_id_t list"
  pool_next_page_id :: page_id_t
  disk :: "page_id_t \<Rightarrow> page_data"
  events :: "event list"

definition emit :: "event \<Rightarrow> BufferPoolManagerInstance \<Rightarrow> BufferPoolManagerInstance" where
  "emit e s = s\<lparr>events := events s @ [e]\<rparr>"

definition WritePage :: "page_id_t \<Rightarrow> page_data \<Rightarrow> BufferPoolManagerInstance
    \<Rightarrow> BufferPoolManagerInstance" where
  "WritePage pid d s = emit (EvWritePage pid d) (s\<lparr>disk := (disk s)(pid := d)\<rparr>)"

definition ResetMemory :: "frame_id_t \<Rightarrow> BufferPoolManagerInstance
    \<Rightarrow> BufferPoolManagerInstance" where
  "ResetMemory f s =
     emit (EvResetMemory f) (s\<lparr>pages := (pages s)(f := (pages s f)\<lparr>data := ZeroPage\<rparr>)\<rparr>)"

definition ReadPage :: "page_id_t \<Rightarrow> frame_id_t \<Rightarrow> BufferPoolManagerInstance
    \<Rightarrow> BufferPoolManagerInstance" where
  "ReadPage pid f s =
     emit (EvReadPage pid) (s\<lparr>pages := (pages s)(f := (pages s f)\<lparr>data := disk s pid\<rparr>)\<rparr>)"

definition AllocatePage :: "BufferPoolManagerInstance \<Rightarrow> page_id_t \<times> BufferPoolManagerInstance" where
  "AllocatePage s =
     (pool_next_page_id s, s\<lparr>pool_next_page_id := wrap_page_id (pool_next_page_id s + 1)\<rparr>)"

definition DeallocatePage :: "page_id_t \<Rightarrow> BufferPoolManagerInstance \<Rightarrow> BufferPoolManagerInstance" where
  "DeallocatePage pid s = emit (EvDeallocatePage pid) s"

text \<open>
  Lines 48-65 of \<^verbatim>\<open>NewPgImp\<close> and 94-111 of \<^verbatim>\<open>FetchPgImp\<close> are the same code: take the
  back of the free list, or else evict a victim, write it back when dirty and drop its
  page-table entry. \<open>None\<close> is the early \<^verbatim>\<open>return nullptr\<close>.
\<close>

definition acquire_frame :: "BufferPoolManagerInstance
    \<Rightarrow> (frame_id_t \<times> BufferPoolManagerInstance) option" where
  "acquire_frame s =
     (if free_list s \<noteq> []
      then Some (last (free_list s), s\<lparr>free_list := butlast (free_list s)\<rparr>)
      else (case Evict (replacer s) of
              None \<Rightarrow> None
            | Some (f, r') \<Rightarrow>
                (let s1 = s\<lparr>replacer := r'\<rparr>;
                     target = pages s1 f;
                     s2 = (if is_dirty target
                           then WritePage (page_id target) (data target) s1 else s1);
                     s3 = s2\<lparr>page_table := (page_table s2)(page_id target := None)\<rparr>
                 in Some (f, s3))))"

definition NewPgImp :: "BufferPoolManagerInstance
    \<Rightarrow> page_id_t \<times> frame_id_t option \<times> BufferPoolManagerInstance" where
  "NewPgImp s =
     (let (new_page_id, s0) = AllocatePage s
      in case acquire_frame s0 of
           None \<Rightarrow> (new_page_id, None, s0)
         | Some (f, s1) \<Rightarrow>
             (let s2 = s1\<lparr>pages := (pages s1)
                          (f := (pages s1 f)\<lparr>page_id := new_page_id, is_dirty := False,
                                               pin_count := 1\<rparr>)\<rparr>;
                  s3 = ResetMemory f s2;
                  s4 = s3\<lparr>page_table := (page_table s3)(new_page_id \<mapsto> f)\<rparr>;
                  s5 = s4\<lparr>replacer := SetEvictable f False (RecordAccess f (replacer s4))\<rparr>
              in (new_page_id, Some f, s5)))"

definition FetchPgImp :: "page_id_t \<Rightarrow> BufferPoolManagerInstance
    \<Rightarrow> frame_id_t option \<times> BufferPoolManagerInstance" where
  "FetchPgImp pid s =
     (case page_table s pid of
        Some f \<Rightarrow>
          (let s1 = s\<lparr>pages := (pages s)(f := (pages s f)\<lparr>pin_count := pin_count (pages s f) + 1\<rparr>)\<rparr>;
               s2 = s1\<lparr>replacer := SetEvictable f False (RecordAccess f (replacer s1))\<rparr>
           in (Some f, s2))
      | None \<Rightarrow>
          (case acquire_frame s of
             None \<Rightarrow> (None, s)
           | Some (f, s1) \<Rightarrow>
               (let s2 = ResetMemory f s1;
                    s3 = ReadPage pid f s2;
                    s4 = s3\<lparr>pages := (pages s3)
                            (f := (pages s3 f)\<lparr>page_id := pid, is_dirty := False,
                                                 pin_count := 1\<rparr>)\<rparr>;
                    s5 = s4\<lparr>page_table := (page_table s4)(pid \<mapsto> f)\<rparr>;
                    s6 = s5\<lparr>replacer := SetEvictable f False (RecordAccess f (replacer s5))\<rparr>
                in (Some f, s6))))"

definition UnpinPgImp :: "page_id_t \<Rightarrow> bool \<Rightarrow> BufferPoolManagerInstance
    \<Rightarrow> bool \<times> BufferPoolManagerInstance" where
  "UnpinPgImp pid dirty s =
     (case page_table s pid of
        None \<Rightarrow> (False, s)
      | Some f \<Rightarrow>
          (if pin_count (pages s f) \<le> 0 then (False, s)
           else
             (let s1 = s\<lparr>pages := (pages s)(f := (pages s f)\<lparr>pin_count := pin_count (pages s f) - 1\<rparr>)\<rparr>;
                  s2 = (if pin_count (pages s1 f) \<le> 0
                        then s1\<lparr>replacer := SetEvictable f True (replacer s1)\<rparr> else s1);
                  s3 = s2\<lparr>pages := (pages s2)(f := (pages s2 f)\<lparr>is_dirty := (dirty \<or> is_dirty (pages s2 f))\<rparr>)\<rparr>
              in (True, s3))))"

definition FlushPgImp :: "page_id_t \<Rightarrow> BufferPoolManagerInstance
    \<Rightarrow> bool \<times> BufferPoolManagerInstance" where
  "FlushPgImp pid s =
     (case page_table s pid of
        None \<Rightarrow> (False, s)
      | Some f \<Rightarrow>
          (let s1 = WritePage (page_id (pages s f)) (data (pages s f)) s;
               s2 = s1\<lparr>pages := (pages s1)(f := (pages s1 f)\<lparr>is_dirty := False\<rparr>)\<rparr>
           in (True, s2)))"

definition DeletePgImp :: "page_id_t \<Rightarrow> BufferPoolManagerInstance
    \<Rightarrow> bool \<times> BufferPoolManagerInstance" where
  "DeletePgImp pid s =
     (case page_table s pid of
        None \<Rightarrow> (True, s)
      | Some f \<Rightarrow>
          (if pin_count (pages s f) > 0 then (False, s)
           else
             (let s1 = ResetMemory f s;
                  s2 = s1\<lparr>pages := (pages s1)
                          (f := (pages s1 f)\<lparr>page_id := INVALID_PAGE_ID, is_dirty := False,
                                               pin_count := 0\<rparr>)\<rparr>;
                  s3 = s2\<lparr>page_table := (page_table s2)(pid := None)\<rparr>;
                  s4 = s3\<lparr>replacer := ReplacerRemove f (replacer s3)\<rparr>;
                  s5 = s4\<lparr>free_list := free_list s4 @ [f]\<rparr>;
                  s6 = DeallocatePage pid s5
              in (True, s6))))"

text \<open>The pool as the constructor leaves it (lines 23-33).\<close>

definition new_pool :: "nat \<Rightarrow> nat \<Rightarrow> BufferPoolManagerInstance" where
  "new_pool n k =
     \<lparr>pool_size = n,
      pages = (\<lambda>_. \<lparr>data = ZeroPage, page_id = INVALID_PAGE_ID, pin_count = 0, is_dirty = False\<rparr>),
      page_table = Map.empty,
      replacer = \<lparr>replacer_k = k, current_timestamp = 0, entries = []\<rparr>,
      free_list = map int [0 ..< n],
      pool_next_page_id = 0,
      disk = (\<lambda>_. ZeroPage),
      events = []\<rparr>"

section \<open>B+ tree pages\<close>

text \<open>C++ integer division truncates toward zero.\<close>

definition cdiv :: "int \<Rightarrow> int \<Rightarrow> int" where
  "cdiv a b = sgn a * sgn b * (\<bar>a\<bar> div \<bar>b\<bar>)"

text \<open>
  The header of a tree page seen through a \<^verbatim>\<open>BPlusTreePage *\<close>. The accessors are declared
  in \<^verbatim>\<open>b_plus_tree_page.h\<close>; reading a page that holds no tree node is \<open>None\<close>.
\<close>

definition IsLeafPage :: "page_data \<Rightarrow> bool option" where
  "IsLeafPage d = (case d of LeafData _ \<Rightarrow> Some True | InternalData _ \<Rightarrow> Some False | _ \<Rightarrow> None)"

definition GetPageId :: "page_data \<Rightarrow> page_id_t option" where
  "GetPageId d = (case d of LeafData l \<Rightarrow> Some (l_page_id l)
                   | InternalData ip \<Rightarrow> Some (i_page_id ip) | _ \<Rightarrow> None)"

definition GetParentPageId :: "page_data \<Rightarrow> page_id_t option" where
  "GetParentPageId d = (case d of LeafData l \<Rightarrow> Some (l_parent_page_id l)
                   | InternalData ip \<Rightarrow> Some (i_parent_page_id ip) | _ \<Rightarrow> None)"

definition SetParentPageId :: "page_id_t \<Rightarrow> page_data \<Rightarrow> page_data option" where
  "SetParentPageId p d = (case d of LeafData l \<Rightarrow> Some (LeafData (l\<lparr>l_parent_page_id := p\<rparr>))
                   | InternalData ip \<Rightarrow> Some (InternalData (ip\<lparr>i_parent_page_id := p\<rparr>))
                   | _ \<Rightarrow> None)"

subsection \<open>Leaf pages\<close>

text \<open>
  \<^verbatim>\<open>NeedSplit\<close> (\<^verbatim>\<open>b_plus_tree_page.h\<close>, line 75), \<^verbatim>\<open>NeedRedsb\<close> and \<^verbatim>\<open>IsLast\<close>
  (\<^verbatim>\<open>b_plus_tree_leaf_page.h\<close>, lines 69-71) are inline in the headers.
\<close>

definition leaf_GetSize :: "LeafPage \<Rightarrow> int" where
  "leaf_GetSize l = int (length (l_array l))"

definition leaf_NeedSplit :: "LeafPage \<Rightarrow> bool" where
  "leaf_NeedSplit l = (leaf_GetSize l = l_max_size l)"

definition leaf_NeedRedsb :: "LeafPage \<Rightarrow> bool" where
  "leaf_NeedRedsb l = (leaf_GetSize l < cdiv (l_max_size l) 2)"

definition leaf_IsLast :: "LeafPage \<Rightarrow> bool" where
  "leaf_IsLast l = (l_next_page_id l = INVALID_PAGE_ID)"

text \<open>
  Modelled from the spec: the bodies of the other leaf-page methods
  (\<^verbatim>\<open>b_plus_tree_leaf_page.cpp\<close>) are not among the sources; the header declares them.
  Section 3: a leaf is a sorted array of pairs with sibling links, the root has an
  invalid parent id. Section 4.4.2: \<open>Insert\<close> puts the pair at its sorted position and
  refuses a key that is there already. Section 4.4.3: \<open>Remove\<close> drops the entry of a
  key and reports whether the leftmost key changed (the entry was at position 0); a
  sibling gives an entry away only when it holds more than \<open>\<lceil>max/2\<rceil>\<close> entries; a merge
  concatenates the entries. Reading a slot outside the entries in use is \<open>None\<close>.
\<close>

definition LeafInit :: "page_id_t \<Rightarrow> page_id_t \<Rightarrow> int \<Rightarrow> LeafPage" where
  "LeafInit pid parent_id max_size =
     \<lparr>l_max_size = max_size, l_parent_page_id = parent_id, l_page_id = pid,
      l_next_page_id = INVALID_PAGE_ID, l_prev_page_id = INVALID_PAGE_ID, l_array = []\<rparr>"

definition leaf_IsRootPage :: "LeafPage \<Rightarrow> bool" where
  "leaf_IsRootPage l = (l_parent_page_id l = INVALID_PAGE_ID)"

definition leaf_IsFirst :: "LeafPage \<Rightarrow> bool" where
  "leaf_IsFirst l = (l_prev_page_id l = INVALID_PAGE_ID)"

definition leaf_KeyAt :: "LeafPage \<Rightarrow> int \<Rightarrow> KeyType option" where
  "leaf_KeyAt l i =
     (if 0 \<le> i \<and> i < leaf_GetSize l then Some (fst (l_array l ! nat i)) else None)"

definition has_key :: "KeyType \<Rightarrow> (KeyType \<times> 'v) list \<Rightarrow> bool" where
  "has_key k xs = list_ex (\<lambda>p. comparator (fst p) k = 0) xs"

fun insert_sorted :: "KeyType \<Rightarrow> 'v \<Rightarrow> (KeyType \<times> 'v) list \<Rightarrow> (KeyType \<times> 'v) list" where
  "insert_sorted k v [] = [(k, v)]"
| "insert_sorted k v (p # ps) =
     (if comparator k (fst p) = - 1 then (k, v) # p # ps else p # insert_sorted k v ps)"

fun remove_key :: "KeyType \<Rightarrow> (KeyType \<times> 'v) list \<Rightarrow> (KeyType \<times> 'v) list" where
  "remove_key k [] = []"
| "remove_key k (p # ps) = (if comparator (fst p) k = 0 then ps else p # remove_key k ps)"

definition leaf_Insert :: "KeyType \<Rightarrow> ValueType \<Rightarrow> LeafPage \<Rightarrow> LeafPage option" where
  "leaf_Insert k v l =
     (if has_key k (l_array l) then None
      else Some (l\<lparr>l_array := insert_sorted k v (l_array l)\<rparr>))"

definition leaf_Remove :: "KeyType \<Rightarrow> LeafPage \<Rightarrow> (bool \<times> LeafPage) option" where
  "leaf_Remove k l =
     (if has_key k (l_array l)
      then Some (comparator (fst (hd (l_array l))) k = 0, l\<lparr>l_array := remove_key k (l_array l)\<rparr>)
      else None)"

definition min_entries :: "int \<Rightarrow> int" where
  "min_entries max_size = cdiv (max_size + 1) 2"

definition leaf_StealFirst :: "LeafPage \<Rightarrow> ((KeyType \<times> ValueType) \<times> LeafPage) option" where
  "leaf_StealFirst l =
     (if leaf_GetSize l > min_entries (l_max_size l) \<and> l_array l \<noteq> []
      then Some (hd (l_array l), l\<lparr>l_array := tl (l_array l)\<rparr>) else None)"

definition leaf_StealLast :: "LeafPage \<Rightarrow> ((KeyType \<times> ValueType) \<times> LeafPage) option" where
  "leaf_StealLast l =
     (if leaf_GetSize l > min_entries (l_max_size l) \<and> l_array l \<noteq> []
      then Some (last (l_array l), l\<lparr>l_array := butlast (l_array l)\<rparr>) else None)"

definition leaf_InsertFirst :: "KeyType \<times> ValueType \<Rightarrow> LeafPage \<Rightarrow> LeafPage" where
  "leaf_InsertFirst p l = l\<lparr>l_array := p # l_array l\<rparr>"

definition leaf_InsertLast :: "KeyType \<times> ValueType \<Rightarrow> LeafPage \<Rightarrow> LeafPage" where
  "leaf_InsertLast p l = l\<lparr>l_array := l_array l @ [p]\<rparr>"

text \<open>\<open>merging->MergeFromRight(rest)\<close>: \<open>rest\<close> is the right neighbour, its entries go to the end.\<close>

definition leaf_MergeFromRight :: "LeafPage \<Rightarrow> LeafPage \<Rightarrow> LeafPage" where
  "leaf_MergeFromRight rest merging = merging\<lparr>l_array := l_array merging @ l_array rest\<rparr>"

text \<open>\<open>merging->MergeFromLeft(rest)\<close>: \<open>rest\<close> is the left neighbour, its entries go to the front.\<close>

definition leaf_MergeFromLeft :: "LeafPage \<Rightarrow> LeafPage \<Rightarrow> LeafPage" where
  "leaf_MergeFromLeft rest merging = merging\<lparr>l_array := l_array rest @ l_array merging\<rparr>"

subsection \<open>Internal pages\<close>

text \<open>
  Modelled from the spec: the internal page (\<^verbatim>\<open>b_plus_tree_internal_page.h\<close> and its
  \<^verbatim>\<open>.cpp\<close>) is not among the sources. Section 3: a sorted array of (key, child) pairs
  with one leading child pointer, for \<open>n\<close> keys \<open>n + 1\<close> children; section 6: slot 0's key
  is unused. \<^verbatim>\<open>FindLeafPage\<close> reads keys \<open>1 .. GetSize()\<close> and children \<open>0 .. GetSize()\<close>, so
  \<open>GetSize\<close> counts the keys. \<open>Insert\<close> puts a pair at its sorted position among the keys;
  \<open>SearchPosition\<close> is the slot of a child (\<open>-1\<close> when it is none); \<open>Remove\<close> drops a slot;
  a sibling gives a slot away only when it holds more than \<open>\<lceil>max/2\<rceil>\<close> keys. Reading or
  writing a slot outside the slots in use is \<open>None\<close>.
\<close>

definition InternalInit :: "page_id_t \<Rightarrow> page_id_t \<Rightarrow> int \<Rightarrow> InternalPage" where
  "InternalInit pid parent_id max_size =
     \<lparr>i_max_size = max_size, i_parent_page_id = parent_id, i_page_id = pid,
      i_array = [(0, 0)]\<rparr>"

definition internal_GetSize :: "InternalPage \<Rightarrow> int" where
  "internal_GetSize ip = int (length (i_array ip)) - 1"

definition internal_NeedSplit :: "InternalPage \<Rightarrow> bool" where
  "internal_NeedSplit ip = (internal_GetSize ip = i_max_size ip)"

definition internal_NeedRedsb :: "InternalPage \<Rightarrow> bool" where
  "internal_NeedRedsb ip = (internal_GetSize ip < cdiv (i_max_size ip) 2)"

definition internal_IsRootPage :: "InternalPage \<Rightarrow> bool" where
  "internal_IsRootPage ip = (i_parent_page_id ip = INVALID_PAGE_ID)"

definition slot_at :: "InternalPage \<Rightarrow> int \<Rightarrow> (KeyType \<times> page_id_t) option" where
  "slot_at ip i =
     (if 0 \<le> i \<and> i < int (length (i_array ip)) then Some (i_array ip ! nat i) else None)"

definition internal_KeyAt :: "InternalPage \<Rightarrow> int \<Rightarrow> KeyType option" where
  "internal_KeyAt ip i = map_option fst (slot_at ip i)"

definition internal_ValueAt :: "InternalPage \<Rightarrow> int \<Rightarrow> page_id_t option" where
  "internal_ValueAt ip i = map_option snd (slot_at ip i)"

definition internal_SetKeyAt :: "int \<Rightarrow> KeyType \<Rightarrow> InternalPage \<Rightarrow> InternalPage option" where
  "internal_SetKeyAt i k ip =
     (if 0 \<le> i \<and> i < int (length (i_array ip))
      then Some (ip\<lparr>i_array := (i_array ip)[nat i := (k, snd (i_array ip ! nat i))]\<rparr>)
      else None)"

definition SetFirstPoint :: "page_id_t \<Rightarrow> InternalPage \<Rightarrow> InternalPage option" where
  "SetFirstPoint c ip =
     (case i_array ip of [] \<Rightarrow> None
      | p # ps \<Rightarrow> Some (ip\<lparr>i_array := (fst p, c) # ps\<rparr>))"

definition internal_Insert :: "KeyType \<Rightarrow> page_id_t \<Rightarrow> InternalPage \<Rightarrow> InternalPage option" where
  "internal_Insert k c ip =
     (case i_array ip of [] \<Rightarrow> None
      | p # ps \<Rightarrow> Some (ip\<lparr>i_array := p # insert_sorted k c ps\<rparr>))"

fun search_position :: "page_id_t \<Rightarrow> (KeyType \<times> page_id_t) list \<Rightarrow> int \<Rightarrow> int" where
  "search_position c [] i = - 1"
| "search_position c (p # ps) i = (if snd p = c then i else search_position c ps (i + 1))"

definition SearchPosition :: "page_id_t \<Rightarrow> InternalPage \<Rightarrow> int" where
  "SearchPosition c ip = search_position c (i_array ip) 0"

definition internal_Remove :: "int \<Rightarrow> InternalPage \<Rightarrow> InternalPage option" where
  "internal_Remove i ip =
     (if 0 \<le> i \<and> i < int (length (i_array ip))
      then Some (ip\<lparr>i_array := take (nat i) (i_array ip) @ drop (nat i + 1) (i_array ip)\<rparr>)
      else None)"

definition internal_StealFirst :: "InternalPage
    \<Rightarrow> ((KeyType \<times> page_id_t) \<times> InternalPage) option" where
  "internal_StealFirst ip =
     (if internal_GetSize ip > min_entries (i_max_size ip) \<and> i_array ip \<noteq> []
      then Some (hd (i_array ip), ip\<lparr>i_array := tl (i_array ip)\<rparr>) else None)"

definition internal_StealLast :: "InternalPage
    \<Rightarrow> ((KeyType \<times> page_id_t) \<times> InternalPage) option" where
  "internal_StealLast ip =
     (if internal_GetSize ip > min_entries (i_max_size ip) \<and> i_array ip \<noteq> []
      then Some (last (i_array ip), ip\<lparr>i_array := butlast (i_array ip)\<rparr>) else None)"

definition internal_InsertFirst :: "KeyType \<times> page_id_t \<Rightarrow> InternalPage \<Rightarrow> InternalPage" where
  "internal_InsertFirst p ip = ip\<lparr>i_array := p # i_array ip\<rparr>"

definition internal_InsertLast :: "KeyType \<times> page_id_t \<Rightarrow> InternalPage \<Rightarrow> InternalPage" where
  "internal_InsertLast p ip = ip\<lparr>i_array := i_array ip @ [p]\<rparr>"

text \<open>
  Modelled from the spec: the header page (\<^verbatim>\<open>storage/page/header_page.h\<close>) is not among
  the sources. Section 6: it exposes \<open>InsertRecord(name, id)\<close> and \<open>UpdateRecord(name, id)\<close>
  keyed by the index name. A zeroed page is a header page without records.
\<close>

definition InsertRecord :: "string \<Rightarrow> page_id_t \<Rightarrow> (string \<times> page_id_t) list
    \<Rightarrow> (string \<times> page_id_t) list" where
  "InsertRecord name root recs =
     (if name \<in> set (map fst recs) then recs else recs @ [(name, root)])"

definition UpdateRecord :: "string \<Rightarrow> page_id_t \<Rightarrow> (string \<times> page_id_t) list
    \<Rightarrow> (string \<times> page_id_t) list" where
  "UpdateRecord name root recs = map (\<lambda>p. if fst p = name then (name, root) else p) recs"

definition header_records :: "page_data \<Rightarrow> (string \<times> page_id_t) list option" where
  "header_records d = (case d of HeaderData recs \<Rightarrow> Some recs | ZeroPage \<Rightarrow> Some [] | _ \<Rightarrow> None)"

section \<open>The B+ tree\<close>

record BPlusTree =
  index_name :: string
  root_page_id :: page_id_t
  bpm :: BufferPoolManagerInstance
  leaf_max_size :: int
  internal_max_size :: int

definition IsEmpty :: "BPlusTree \<Rightarrow> bool" where
  "IsEmpty t = (root_page_id t = INVALID_PAGE_ID)"

text \<open>
  A pointer to a tree page is the index of the frame that holds it; reading and
  writing through the pointer reads and writes that frame's contents, whatever page
  the frame holds by then.
\<close>

definition page_at :: "frame_id_t \<Rightarrow> BPlusTree \<Rightarrow> page_data" where
  "page_at f t = data (pages (bpm t) f)"

definition set_page :: "frame_id_t \<Rightarrow> page_data \<Rightarrow> BPlusTree \<Rightarrow> BPlusTree" where
  "set_page f d t =
     t\<lparr>bpm := (bpm t)\<lparr>pages := (pages (bpm t))(f := (pages (bpm t) f)\<lparr>data := d\<rparr>)\<rparr>\<rparr>"

definition leaf_at :: "frame_id_t \<Rightarrow> BPlusTree \<Rightarrow> LeafPage option" where
  "leaf_at f t = (case page_at f t of LeafData l \<Rightarrow> Some l | _ \<Rightarrow> None)"

definition internal_at :: "frame_id_t \<Rightarrow> BPlusTree \<Rightarrow> InternalPage option" where
  "internal_at f t = (case page_at f t of InternalData ip \<Rightarrow> Some ip | _ \<Rightarrow> None)"

text \<open>
  The calls into the pool. \<^verbatim>\<open>GetPage\<close>, \<^verbatim>\<open>GetInternalPage\<close> and \<^verbatim>\<open>GetLeafPage\<close> (lines 78-103)
  dereference what \<^verbatim>\<open>FetchPage\<close> returns: on \<^verbatim>\<open>nullptr\<close> the program has no defined
  behaviour, which is \<open>None\<close>. Every caller of \<^verbatim>\<open>NewPage\<close> dereferences the result
  the same way. The tree's \<^verbatim>\<open>UnpinPage\<close> and \<^verbatim>\<open>DeletePage\<close> pass their arguments to the
  pool and drop the answer.
\<close>

definition GetPage :: "page_id_t \<Rightarrow> BPlusTree \<Rightarrow> (frame_id_t \<times> BPlusTree) option" where
  "GetPage pid t =
     (case FetchPgImp pid (bpm t) of
        (None, b) \<Rightarrow> None
      | (Some f, b) \<Rightarrow> Some (f, t\<lparr>bpm := b\<rparr>))"

definition GetInternalPage :: "page_id_t \<Rightarrow> BPlusTree \<Rightarrow> (frame_id_t \<times> BPlusTree) option" where
  "GetInternalPage = GetPage"

definition GetLeafPage :: "page_id_t \<Rightarrow> BPlusTree \<Rightarrow> (frame_id_t \<times> BPlusTree) option" where
  "GetLeafPage = GetPage"

definition NewPage :: "BPlusTree \<Rightarrow> (page_id_t \<times> frame_id_t \<times> BPlusTree) option" where
  "NewPage t =
     (case NewPgImp (bpm t) of
        (pid, None, b) \<Rightarrow> None
      | (pid, Some f, b) \<Rightarrow> Some (pid, f, t\<lparr>bpm := b\<rparr>))"

definition UnpinPage :: "page_id_t \<Rightarrow> bool \<Rightarrow> BPlusTree \<Rightarrow> BPlusTree" where
  "UnpinPage pid dirty t = t\<lparr>bpm := snd (UnpinPgImp pid dirty (bpm t))\<rparr>"

definition DeletePage :: "page_id_t \<Rightarrow> BPlusTree \<Rightarrow> BPlusTree" where
  "DeletePage pid t = t\<lparr>bpm := snd (DeletePgImp pid (bpm t))\<rparr>"

definition UpdateRootPageId :: "int \<Rightarrow> BPlusTree \<Rightarrow> BPlusTree option" where
  "UpdateRootPageId insert_record t = do {
     (hf, t1) \<leftarrow> GetPage HEADER_PAGE_ID t;
     recs \<leftarrow> header_records (page_at hf t1);
     let recs' = (if insert_record \<noteq> 0
                  then InsertRecord (index_name t1) (root_page_id t1) recs
                  else UpdateRecord (index_name t1) (root_page_id t1) recs);
     Some (UnpinPage HEADER_PAGE_ID True (set_page hf (HeaderData recs') t1))
   }"

subsection \<open>Search\<close>

text \<open>
  The lambda of \<^verbatim>\<open>FindLeafPage\<close> (lines 54-62): the loop runs over the keys from slot 1
  on and returns the child before the first key greater than the search key, or the
  last child.
\<close>

fun next_page_loop :: "(KeyType \<times> page_id_t) list \<Rightarrow> page_id_t \<Rightarrow> KeyType \<Rightarrow> page_id_t" where
  "next_page_loop [] prev key = prev"
| "next_page_loop (p # ps) prev key =
     (if comparator (fst p) key = 1 then prev else next_page_loop ps (snd p) key)"

definition next_page_id_of :: "InternalPage \<Rightarrow> KeyType \<Rightarrow> page_id_t option" where
  "next_page_id_of ip key =
     (case i_array ip of [] \<Rightarrow> None | p # ps \<Rightarrow> Some (next_page_loop ps (snd p) key))"

text \<open>
  The \<^verbatim>\<open>while\<close> loop of \<^verbatim>\<open>FindLeafPage\<close> (lines 50-66). The first argument bounds the
  number of iterations; running out of it is \<open>None\<close>.
\<close>

fun FindLeafPage_loop :: "nat \<Rightarrow> KeyType \<Rightarrow> frame_id_t \<Rightarrow> BPlusTree
    \<Rightarrow> (frame_id_t \<times> BPlusTree) option" where
  "FindLeafPage_loop 0 key cur t = None"
| "FindLeafPage_loop (Suc n) key cur t =
     (case page_at cur t of
        LeafData l \<Rightarrow> Some (cur, t)
      | InternalData ip \<Rightarrow> do {
          next_id \<leftarrow> next_page_id_of ip key;
          (nxt, t1) \<leftarrow> GetPage next_id (UnpinPage (i_page_id ip) False t);
          FindLeafPage_loop n key nxt t1
        }
      | _ \<Rightarrow> None)"

definition FindLeafPage :: "nat \<Rightarrow> KeyType \<Rightarrow> BPlusTree \<Rightarrow> (frame_id_t \<times> BPlusTree) option" where
  "FindLeafPage fuel key t = do {
     (cur, t1) \<leftarrow> GetPage (root_page_id t) t;
     FindLeafPage_loop fuel key cur t1
   }"

text \<open>The loop of \<^verbatim>\<open>GetValue\<close> (lines 122-129): the value of the first entry with the key.\<close>

fun leaf_scan :: "(KeyType \<times> ValueType) list \<Rightarrow> KeyType \<Rightarrow> ValueType option" where
  "leaf_scan [] key = None"
| "leaf_scan (p # ps) key = (if comparator (fst p) key = 0 then Some (snd p) else leaf_scan ps key)"

text \<open>\<open>GetValue\<close> returns its boolean, the result vector and the new state.\<close>

definition GetValue :: "nat \<Rightarrow> KeyType \<Rightarrow> ValueType list \<Rightarrow> BPlusTree
    \<Rightarrow> (bool \<times> ValueType list \<times> BPlusTree) option" where
  "GetValue fuel key result t =
     (if IsEmpty t then Some (False, result, t)
      else do {
        (lf, t1) \<leftarrow> FindLeafPage fuel key t;
        leaf \<leftarrow> leaf_at lf t1;
        (case leaf_scan (l_array leaf) key of
           Some v \<Rightarrow> Some (True, result @ [v], UnpinPage (l_page_id leaf) False t1)
         | None \<Rightarrow> Some (False, result, UnpinPage (l_page_id leaf) False t1))
      })"

subsection \<open>Insertion\<close>

definition UpdateParentId :: "page_id_t \<Rightarrow> page_id_t \<Rightarrow> BPlusTree \<Rightarrow> BPlusTree option" where
  "UpdateParentId pid p_page_id t = do {
     (f, t1) \<leftarrow> GetPage pid t;
     d \<leftarrow> SetParentPageId p_page_id (page_at f t1);
     Some (UnpinPage pid True (set_page f d t1))
   }"

text \<open>
  A write to the slot right after the slots in use, counted in by the \<^verbatim>\<open>IncreaseSize\<close>
  that follows the writes, is an append; a write further out is \<open>None\<close>.
\<close>

definition write_slot :: "int \<Rightarrow> KeyType \<times> page_id_t \<Rightarrow> InternalPage \<Rightarrow> InternalPage option" where
  "write_slot j e ip =
     (if 0 \<le> j \<and> j < int (length (i_array ip)) then Some (ip\<lparr>i_array := (i_array ip)[nat j := e]\<rparr>)
      else if j = int (length (i_array ip)) then Some (ip\<lparr>i_array := i_array ip @ [e]\<rparr>)
      else None)"

text \<open>\<^verbatim>\<open>IncreaseSize\<close> by a negative amount drops the last slots.\<close>

definition internal_DecreaseSize :: "int \<Rightarrow> InternalPage \<Rightarrow> InternalPage" where
  "internal_DecreaseSize n ip = ip\<lparr>i_array := take (nat (int (length (i_array ip)) - n)) (i_array ip)\<rparr>"

definition leaf_DecreaseSize :: "int \<Rightarrow> LeafPage \<Rightarrow> LeafPage" where
  "leaf_DecreaseSize n l = l\<lparr>l_array := take (nat (int (length (l_array l)) - n)) (l_array l)\<rparr>"

text \<open>The loop of \<^verbatim>\<open>SplitInternal\<close> (lines 305-309); the first argument counts the iterations left.\<close>

fun move_children :: "nat \<Rightarrow> int \<Rightarrow> int \<Rightarrow> frame_id_t \<Rightarrow> frame_id_t \<Rightarrow> page_id_t \<Rightarrow> BPlusTree
    \<Rightarrow> BPlusTree option" where
  "move_children 0 i mid_index lf nf new_internal_id t = Some t"
| "move_children (Suc n) i mid_index lf nf new_internal_id t = do {
     left \<leftarrow> internal_at lf t;
     mapp_elem \<leftarrow> slot_at left (i + mid_index + 1);
     t1 \<leftarrow> UpdateParentId (snd mapp_elem) new_internal_id t;
     right \<leftarrow> internal_at nf t1;
     right' \<leftarrow> write_slot (i + 1) mapp_elem right;
     move_children n (i + 1) mid_index lf nf new_internal_id (set_page nf (InternalData right') t1)
   }"

text \<open>
  \<^verbatim>\<open>SplitInternal\<close> (lines 264-328), in the parts its comments mark. First the parent
  (lines 271-294): the parent of the node is fetched, or, when the node is the root, a
  new root is created above it; the new node's parent id is set. The result is the
  pointer to the parent.
\<close>

definition SplitInternal_parent :: "frame_id_t \<Rightarrow> frame_id_t \<Rightarrow> page_id_t \<Rightarrow> page_id_t \<Rightarrow> BPlusTree
    \<Rightarrow> (frame_id_t \<times> BPlusTree) option" where
  "SplitInternal_parent lf nf over_node_id new_internal_id t = do {
     over \<leftarrow> internal_at lf t;
     new_internal \<leftarrow> internal_at nf t;
     if \<not> internal_IsRootPage over then do {
       let t1 = set_page nf (InternalData (new_internal\<lparr>i_parent_page_id := i_parent_page_id over\<rparr>)) t;
       over1 \<leftarrow> internal_at lf t1;
       GetInternalPage (i_parent_page_id over1) t1
     } else do {
       (new_root_page_id, rf, t1) \<leftarrow> NewPage t;
       t3 \<leftarrow> UpdateRootPageId 0 (t1\<lparr>root_page_id := new_root_page_id\<rparr>);
       let t4 = set_page rf (InternalData (InternalInit new_root_page_id INVALID_PAGE_ID
                                (internal_max_size t3))) t3;
       new_root \<leftarrow> internal_at rf t4;
       new_root' \<leftarrow> SetFirstPoint over_node_id new_root;
       let t5 = set_page rf (InternalData new_root') t4;
       over5 \<leftarrow> internal_at lf t5;
       let t6 = set_page lf (InternalData (over5\<lparr>i_parent_page_id := root_page_id t5\<rparr>)) t5;
       let t7 = set_page nf (InternalData (InternalInit new_internal_id (root_page_id t6)
                                (internal_max_size t6))) t6;
       Some (rf, t7)
     }
   }"

text \<open>
  Then the parent's new entry and the move of the upper slots into the new node
  (lines 295-319), the children's parent ids being rewritten on the way.
\<close>

definition SplitInternal_move :: "KeyType \<Rightarrow> int \<Rightarrow> int \<Rightarrow> page_id_t
    \<Rightarrow> frame_id_t \<Rightarrow> frame_id_t \<Rightarrow> frame_id_t \<Rightarrow> BPlusTree \<Rightarrow> BPlusTree option" where
  "SplitInternal_move mid_key mid_index old_size new_internal_id lf nf pf t1 = do {
     parent \<leftarrow> internal_at pf t1;
     parent' \<leftarrow> internal_Insert mid_key new_internal_id parent;
     let t2 = set_page pf (InternalData parent') t1;
     left \<leftarrow> internal_at lf t2;
     mid_slot \<leftarrow> slot_at left mid_index;
     let mid_page_id = snd mid_slot;
     t3 \<leftarrow> move_children (nat (old_size - mid_index)) 0 mid_index lf nf new_internal_id t2;
     t4 \<leftarrow> UpdateParentId mid_page_id new_internal_id t3;
     right \<leftarrow> internal_at nf t4;
     right' \<leftarrow> SetFirstPoint mid_page_id right;
     let t5 = set_page nf (InternalData right') t4;
     over6 \<leftarrow> internal_at lf t5;
     let t6 = set_page lf (InternalData (internal_DecreaseSize (old_size - mid_index + 1) over6)) t5;
     Some (UnpinPage new_internal_id True t6)
   }"

definition SplitInternal_body :: "frame_id_t \<Rightarrow> frame_id_t \<Rightarrow> BPlusTree \<Rightarrow> (frame_id_t \<times> BPlusTree) option" where
  "SplitInternal_body lf nf t = do {
     over \<leftarrow> internal_at lf t;
     let size = internal_GetSize over;
     let mid_index = cdiv (i_max_size over) 2 + 1;
     mid_key \<leftarrow> internal_KeyAt over mid_index;
     new_internal \<leftarrow> internal_at nf t;
     let new_internal_id = i_page_id new_internal;
     let over_node_id = i_page_id over;
     (pf, t1) \<leftarrow> SplitInternal_parent lf nf over_node_id new_internal_id t;
     t7 \<leftarrow> SplitInternal_move mid_key mid_index size new_internal_id lf nf pf t1;
     Some (pf, t7)
   }"

text \<open>
  Last the parent's own overflow (lines 320-327). The first argument bounds the depth
  of the recursion.
\<close>

fun SplitInternal :: "nat \<Rightarrow> frame_id_t \<Rightarrow> frame_id_t \<Rightarrow> BPlusTree \<Rightarrow> BPlusTree option" where
  "SplitInternal 0 lf nf t = None"
| "SplitInternal (Suc fuel) lf nf t = do {
     (pf, t7) \<leftarrow> SplitInternal_body lf nf t;
     parent7 \<leftarrow> internal_at pf t7;
     t8 \<leftarrow> (if internal_NeedSplit parent7 then do {
              (new_page_id, nnf, t8) \<leftarrow> NewPage t7;
              SplitInternal fuel pf nnf
                (set_page nnf (InternalData (InternalInit new_page_id INVALID_PAGE_ID
                                  (internal_max_size t8))) t8)
            } else Some t7);
     parent9 \<leftarrow> internal_at pf t8;
     Some (UnpinPage (i_page_id parent9) True t8)
   }"

text \<open>
  \<^verbatim>\<open>SplitLeaf\<close> (lines 184-254), in the parts its comments mark. First the parent
  (lines 198-219): the parent of the leaf is fetched, or, when the leaf is the root,
  a new root is created above it; the new leaf is initialised under that parent. The
  result is the pointer to the parent.
\<close>

definition SplitLeaf_parent :: "frame_id_t \<Rightarrow> page_id_t \<Rightarrow> page_id_t \<Rightarrow> frame_id_t \<Rightarrow> BPlusTree
    \<Rightarrow> (frame_id_t \<times> BPlusTree) option" where
  "SplitLeaf_parent lf over_node_id new_leaf_id nf t1 = do {
     over1 \<leftarrow> leaf_at lf t1;
     if \<not> leaf_IsRootPage over1 then do {
       let t2 = set_page nf (LeafData (LeafInit new_leaf_id (l_parent_page_id over1)
                                (leaf_max_size t1))) t1;
       over2 \<leftarrow> leaf_at lf t2;
       GetInternalPage (l_parent_page_id over2) t2
     } else do {
       (new_root_page_id, rf, t2) \<leftarrow> NewPage t1;
       t3 \<leftarrow> UpdateRootPageId 0 (t2\<lparr>root_page_id := new_root_page_id\<rparr>);
       let t4 = set_page rf (InternalData (InternalInit new_root_page_id INVALID_PAGE_ID
                                (internal_max_size t3))) t3;
       new_root \<leftarrow> internal_at rf t4;
       new_root' \<leftarrow> SetFirstPoint over_node_id new_root;
       let t5 = set_page rf (InternalData new_root') t4;
       over5 \<leftarrow> leaf_at lf t5;
       let t6 = set_page lf (LeafData (over5\<lparr>l_parent_page_id := root_page_id t5\<rparr>)) t5;
       let t7 = set_page nf (LeafData (LeafInit new_leaf_id (root_page_id t6)
                                (leaf_max_size t6))) t6;
       Some (rf, t7)
     }
   }"

text \<open>
  Then the promotion into the parent and the leaf level (lines 220-244): the middle
  key goes into the parent with the new leaf's id, the new leaf is linked between the
  old leaf and its successor, the entries from the middle on move to the new leaf,
  and both leaves are unpinned. The new leaf is empty after \<^verbatim>\<open>Init\<close>, so that the copy
  to the start of its array followed by \<^verbatim>\<open>IncreaseSize\<close> is an append.
\<close>

definition SplitLeaf_move :: "KeyType \<Rightarrow> int \<Rightarrow> int \<Rightarrow> page_id_t \<Rightarrow> page_id_t
    \<Rightarrow> frame_id_t \<Rightarrow> frame_id_t \<Rightarrow> frame_id_t \<Rightarrow> BPlusTree \<Rightarrow> BPlusTree option" where
  "SplitLeaf_move mid_key mid_index old_size over_node_id new_leaf_id lf nf pf t2 = do {
     parent \<leftarrow> internal_at pf t2;
     parent' \<leftarrow> internal_Insert mid_key new_leaf_id parent;
     let t3 = set_page pf (InternalData parent') t2;
     over3 \<leftarrow> leaf_at lf t3;
     let next_id = l_next_page_id over3;
     new_leaf \<leftarrow> leaf_at nf t3;
     let t4 = set_page nf (LeafData (new_leaf\<lparr>l_next_page_id := next_id,
                                              l_prev_page_id := over_node_id\<rparr>)) t3;
     over4 \<leftarrow> leaf_at lf t4;
     t5 \<leftarrow> (if \<not> leaf_IsLast over4 then do {
              (sf, t5) \<leftarrow> GetLeafPage next_id t4;
              succ \<leftarrow> leaf_at sf t5;
              Some (UnpinPage next_id True
                      (set_page sf (LeafData (succ\<lparr>l_prev_page_id := new_leaf_id\<rparr>)) t5))
            } else Some t4);
     over5 \<leftarrow> leaf_at lf t5;
     let t6 = set_page lf (LeafData (over5\<lparr>l_next_page_id := new_leaf_id\<rparr>)) t5;
     left \<leftarrow> leaf_at lf t6;
     new_leaf6 \<leftarrow> leaf_at nf t6;
     let moved = drop (nat mid_index) (take (nat old_size) (l_array left));
     let t7 = set_page nf (LeafData (new_leaf6\<lparr>l_array := l_array new_leaf6 @ moved\<rparr>)) t6;
     over7 \<leftarrow> leaf_at lf t7;
     let t8 = set_page lf (LeafData (leaf_DecreaseSize (old_size - mid_index) over7)) t7;
     Some (UnpinPage new_leaf_id True (UnpinPage over_node_id True t8))
   }"

text \<open>
  The split up to the unpinning of the two leaves (lines 185-244), which returns the
  pointer to the parent, and the whole function, which goes on to split the parent
  when it is full (lines 246-253).
\<close>

definition SplitLeaf_body :: "frame_id_t \<Rightarrow> BPlusTree \<Rightarrow> (frame_id_t \<times> BPlusTree) option" where
  "SplitLeaf_body lf t = do {
     over \<leftarrow> leaf_at lf t;
     let size = leaf_GetSize over;
     let mid_index = cdiv (l_max_size over) 2;
     mid_key \<leftarrow> leaf_KeyAt over mid_index;
     let over_node_id = l_page_id over;
     (new_leaf_id, nf, t1) \<leftarrow> NewPage t;
     (pf, t2) \<leftarrow> SplitLeaf_parent lf over_node_id new_leaf_id nf t1;
     t9 \<leftarrow> SplitLeaf_move mid_key mid_index size over_node_id new_leaf_id lf nf pf t2;
     Some (pf, t9)
   }"

text \<open>
  Last the parent's overflow (lines 245-253): when the parent is full after the new
  entry, a page is created for \<^verbatim>\<open>SplitInternal\<close>; then the parent is unpinned.
\<close>

definition SplitLeaf_overflow :: "nat \<Rightarrow> frame_id_t \<Rightarrow> BPlusTree \<Rightarrow> BPlusTree option" where
  "SplitLeaf_overflow fuel pf t9 = do {
     parent9 \<leftarrow> internal_at pf t9;
     t10 \<leftarrow> (if internal_NeedSplit parent9 then do {
               (new_page_id, nnf, t10) \<leftarrow> NewPage t9;
               SplitInternal fuel pf nnf
                 (set_page nnf (InternalData (InternalInit new_page_id INVALID_PAGE_ID
                                   (internal_max_size t10))) t10)
             } else Some t9);
     parent11 \<leftarrow> internal_at pf t10;
     Some (UnpinPage (i_page_id parent11) True t10)
   }"

definition SplitLeaf :: "nat \<Rightarrow> frame_id_t \<Rightarrow> BPlusTree \<Rightarrow> BPlusTree option" where
  "SplitLeaf fuel lf t = do {
     (pf, t9) \<leftarrow> SplitLeaf_body lf t;
     SplitLeaf_overflow fuel pf t9
   }"

text \<open>\<^verbatim>\<open>Insert\<close> (lines 145-175).\<close>

definition Insert :: "nat \<Rightarrow> KeyType \<Rightarrow> ValueType \<Rightarrow> BPlusTree \<Rightarrow> (bool \<times> BPlusTree) option" where
  "Insert fuel key v t =
     (if IsEmpty t then do {
        (new_root_page_id, nf, t1) \<leftarrow> NewPage t;
        t2 \<leftarrow> UpdateRootPageId 0 (t1\<lparr>root_page_id := new_root_page_id\<rparr>);
        let t3 = set_page nf (LeafData (LeafInit new_root_page_id INVALID_PAGE_ID
                                 (leaf_max_size t2))) t2;
        new_root \<leftarrow> leaf_at nf t3;
        let t4 = (case leaf_Insert key v new_root of
                    None \<Rightarrow> t3 | Some l \<Rightarrow> set_page nf (LeafData l) t3);
        Some (True, UnpinPage (root_page_id t4) True t4)
      } else do {
        (lf, t1) \<leftarrow> FindLeafPage fuel key t;
        leaf \<leftarrow> leaf_at lf t1;
        (case leaf_Insert key v leaf of
           None \<Rightarrow> Some (False, UnpinPage (l_page_id leaf) False t1)
         | Some leaf' \<Rightarrow>
             (let t2 = set_page lf (LeafData leaf') t1
              in if leaf_NeedSplit leaf'
                 then map_option (Pair True) (SplitLeaf fuel lf t2)
                 else Some (True, UnpinPage (l_page_id leaf') True t2)))
      })"

subsection \<open>Removal\<close>

text \<open>
  \<^verbatim>\<open>UpdateParentKey\<close> (lines 677-696): climb while the current page is its parent's
  child 0, then overwrite the separator. A position of \<open>-1\<close> makes \<^verbatim>\<open>SetKeyAt\<close> write
  outside the array, which is \<open>None\<close>.
\<close>

fun UpdateParentKey_loop :: "nat \<Rightarrow> KeyType \<Rightarrow> page_id_t \<Rightarrow> page_id_t \<Rightarrow> frame_id_t \<Rightarrow> BPlusTree
    \<Rightarrow> BPlusTree option" where
  "UpdateParentKey_loop 0 new_key cur_id parent_id pf t = None"
| "UpdateParentKey_loop (Suc n) new_key cur_id parent_id pf t = do {
     parent \<leftarrow> internal_at pf t;
     let pos = SearchPosition cur_id parent;
     if pos = 0 then do {
       let t1 = UnpinPage cur_id False t;
       cur \<leftarrow> internal_at pf t1;
       (pf', t2) \<leftarrow> GetInternalPage (i_parent_page_id cur) t1;
       UpdateParentKey_loop n new_key parent_id (i_parent_page_id cur) pf' t2
     } else do {
       parent' \<leftarrow> internal_SetKeyAt pos new_key parent;
       Some (UnpinPage parent_id True (UnpinPage cur_id False (set_page pf (InternalData parent') t)))
     }
   }"

definition UpdateParentKey :: "nat \<Rightarrow> KeyType \<Rightarrow> page_id_t \<Rightarrow> BPlusTree \<Rightarrow> BPlusTree option" where
  "UpdateParentKey fuel new_key pid t = do {
     (cf, t1) \<leftarrow> GetPage pid t;
     parent_id \<leftarrow> GetParentPageId (page_at cf t1);
     (pf, t2) \<leftarrow> GetInternalPage parent_id t1;
     UpdateParentKey_loop fuel new_key pid parent_id pf t2
   }"

text \<open>\<^verbatim>\<open>GetLeftMostKey\<close> (lines 660-674).\<close>

fun GetLeftMostKey_loop :: "nat \<Rightarrow> frame_id_t \<Rightarrow> BPlusTree \<Rightarrow> (KeyType \<times> BPlusTree) option" where
  "GetLeftMostKey_loop 0 cur t = None"
| "GetLeftMostKey_loop (Suc n) cur t =
     (case page_at cur t of
        LeafData l \<Rightarrow> do {
          key \<leftarrow> leaf_KeyAt l 0;
          Some (key, UnpinPage (l_page_id l) False t)
        }
      | InternalData ip \<Rightarrow> do {
          c \<leftarrow> internal_ValueAt ip 0;
          (nxt, t1) \<leftarrow> GetPage c t;
          ip1 \<leftarrow> internal_at cur t1;
          GetLeftMostKey_loop n nxt (UnpinPage (i_page_id ip1) False t1)
        }
      | _ \<Rightarrow> None)"

definition GetLeftMostKey :: "nat \<Rightarrow> frame_id_t \<Rightarrow> BPlusTree \<Rightarrow> (KeyType \<times> BPlusTree) option" where
  "GetLeftMostKey fuel ipf t = do {
     ip \<leftarrow> internal_at ipf t;
     c \<leftarrow> internal_ValueAt ip 0;
     (cur, t1) \<leftarrow> GetInternalPage c t;
     GetLeftMostKey_loop fuel cur t1
   }"

text \<open>\<^verbatim>\<open>StealSibling\<close> (lines 402-428).\<close>

definition StealSibling :: "nat \<Rightarrow> frame_id_t \<Rightarrow> BPlusTree \<Rightarrow> (bool \<times> BPlusTree) option" where
  "StealSibling fuel df t = do {
     deleting \<leftarrow> leaf_at df t;
     if leaf_IsLast deleting then do {
       (sf, t1) \<leftarrow> GetLeafPage (l_prev_page_id deleting) t;
       stealing \<leftarrow> leaf_at sf t1;
       (case leaf_StealLast stealing of
          None \<Rightarrow> Some (False, UnpinPage (l_page_id stealing) False t1)
        | Some (v, stealing') \<Rightarrow> do {
            let t2 = set_page sf (LeafData stealing') t1;
            deleting2 \<leftarrow> leaf_at df t2;
            let t3 = set_page df (LeafData (leaf_InsertFirst v deleting2)) t2;
            deleting3 \<leftarrow> leaf_at df t3;
            k0 \<leftarrow> leaf_KeyAt deleting3 0;
            t4 \<leftarrow> UpdateParentKey fuel k0 (l_page_id deleting3) t3;
            stealing4 \<leftarrow> leaf_at sf t4;
            Some (True, UnpinPage (l_page_id stealing4) True t4)
          })
     } else do {
       (sf, t1) \<leftarrow> GetLeafPage (l_next_page_id deleting) t;
       stealing \<leftarrow> leaf_at sf t1;
       (case leaf_StealFirst stealing of
          None \<Rightarrow> Some (False, UnpinPage (l_page_id stealing) False t1)
        | Some (v, stealing') \<Rightarrow> do {
            let t2 = set_page sf (LeafData stealing') t1;
            deleting2 \<leftarrow> leaf_at df t2;
            let t3 = set_page df (LeafData (leaf_InsertLast v deleting2)) t2;
            stealing3 \<leftarrow> leaf_at sf t3;
            k0 \<leftarrow> leaf_KeyAt stealing3 0;
            t4 \<leftarrow> UpdateParentKey fuel k0 (l_page_id stealing3) t3;
            stealing4 \<leftarrow> leaf_at sf t4;
            Some (True, UnpinPage (l_page_id stealing4) True t4)
          })
     }
   }"

text \<open>\<^verbatim>\<open>StealInternal\<close> (lines 438-462).\<close>

definition StealInternal :: "nat \<Rightarrow> frame_id_t \<Rightarrow> frame_id_t \<Rightarrow> frame_id_t \<Rightarrow> int \<Rightarrow> bool \<Rightarrow> BPlusTree
    \<Rightarrow> (bool \<times> BPlusTree) option" where
  "StealInternal fuel df pf nf target_index is_last t = do {
     neber \<leftarrow> internal_at nf t;
     if is_last then
       (case internal_StealLast neber of
          None \<Rightarrow> Some (False, t)
        | Some (v, neber') \<Rightarrow> do {
            let t1 = set_page nf (InternalData neber') t;
            deleting \<leftarrow> internal_at df t1;
            let t2 = set_page df (InternalData (internal_InsertFirst v deleting)) t1;
            parent \<leftarrow> internal_at pf t2;
            pk \<leftarrow> internal_KeyAt parent target_index;
            deleting2 \<leftarrow> internal_at df t2;
            deleting2' \<leftarrow> internal_SetKeyAt 1 pk deleting2;
            let t3 = set_page df (InternalData deleting2') t2;
            parent3 \<leftarrow> internal_at pf t3;
            parent3' \<leftarrow> internal_SetKeyAt target_index (fst v) parent3;
            let t4 = set_page pf (InternalData parent3') t3;
            deleting4 \<leftarrow> internal_at df t4;
            t5 \<leftarrow> UpdateParentId (snd v) (i_page_id deleting4) t4;
            Some (True, t5)
          })
     else
       (case internal_StealFirst neber of
          None \<Rightarrow> Some (False, t)
        | Some (v, neber') \<Rightarrow> do {
            let t1 = set_page nf (InternalData neber') t;
            deleting \<leftarrow> internal_at df t1;
            let t2 = set_page df (InternalData (internal_InsertLast v deleting)) t1;
            parent \<leftarrow> internal_at pf t2;
            pk \<leftarrow> internal_KeyAt parent (target_index + 1);
            deleting2 \<leftarrow> internal_at df t2;
            deleting2' \<leftarrow> internal_SetKeyAt (internal_GetSize deleting2) pk deleting2;
            let t3 = set_page df (InternalData deleting2') t2;
            (lk, t4) \<leftarrow> GetLeftMostKey fuel nf t3;
            parent4 \<leftarrow> internal_at pf t4;
            parent4' \<leftarrow> internal_SetKeyAt (target_index + 1) lk parent4;
            let t5 = set_page pf (InternalData parent4') t4;
            deleting5 \<leftarrow> internal_at df t5;
            t6 \<leftarrow> UpdateParentId (snd v) (i_page_id deleting5) t5;
            Some (True, t6)
          })
   }"

text \<open>
  The two loops of the internal merge (lines 566-570 and 584-588): every slot of the
  deleted page, its child re-parented first, goes after the neighbour's slots or, the
  neighbour's slots shifted right by \<open>n\<close> (lines 580-582), before them. The shift leaves
  the first \<open>n\<close> slots as they were, or unwritten memory (a zero placeholder) where the
  neighbour had fewer slots; the second loop overwrites all of them.
\<close>

fun merge_children :: "nat \<Rightarrow> int \<Rightarrow> int \<Rightarrow> frame_id_t \<Rightarrow> frame_id_t \<Rightarrow> BPlusTree \<Rightarrow> BPlusTree option" where
  "merge_children 0 i offs df nf t = Some t"
| "merge_children (Suc n) i offs df nf t = do {
     deleting \<leftarrow> internal_at df t;
     mapp_elem \<leftarrow> slot_at deleting i;
     neber \<leftarrow> internal_at nf t;
     t1 \<leftarrow> UpdateParentId (snd mapp_elem) (i_page_id neber) t;
     neber1 \<leftarrow> internal_at nf t1;
     neber1' \<leftarrow> write_slot (i + offs) mapp_elem neber1;
     merge_children n (i + 1) offs df nf (set_page nf (InternalData neber1') t1)
   }"

definition shift_right :: "nat \<Rightarrow> InternalPage \<Rightarrow> InternalPage" where
  "shift_right n ip = ip\<lparr>i_array := take n (i_array ip @ replicate n (0, 0)) @ i_array ip\<rparr>"

text \<open>\<^verbatim>\<open>Merge\<close> (lines 471-619). The first argument bounds the depth of the recursion.\<close>

fun Merge :: "nat \<Rightarrow> frame_id_t \<Rightarrow> BPlusTree \<Rightarrow> BPlusTree option" where
  "Merge 0 rf t = None"
| "Merge (Suc fuel) rf t = do {
     is_leaf \<leftarrow> IsLeafPage (page_at rf t);
     if is_leaf then do {
       rest \<leftarrow> leaf_at rf t;
       (pf, t1) \<leftarrow> GetInternalPage (l_parent_page_id rest) t;
       parent \<leftarrow> internal_at pf t1;
       rest1 \<leftarrow> leaf_at rf t1;
       let target_index = SearchPosition (l_page_id rest1) parent;
       (mf, t2) \<leftarrow>
         (if leaf_IsLast rest1 then do {
            (mf, t2) \<leftarrow> GetLeafPage (l_prev_page_id rest1) t1;
            merging \<leftarrow> leaf_at mf t2;
            rest2 \<leftarrow> leaf_at rf t2;
            let t3 = set_page mf (LeafData ((leaf_MergeFromRight rest2 merging)
                                     \<lparr>l_next_page_id := INVALID_PAGE_ID\<rparr>)) t2;
            parent3 \<leftarrow> internal_at pf t3;
            parent3' \<leftarrow> internal_Remove target_index parent3;
            Some (mf, set_page pf (InternalData parent3') t3)
          } else do {
            (mf, t2) \<leftarrow> GetLeafPage (l_next_page_id rest1) t1;
            merging \<leftarrow> leaf_at mf t2;
            rest2 \<leftarrow> leaf_at rf t2;
            let t3 = set_page mf (LeafData (leaf_MergeFromLeft rest2 merging)) t2;
            rest3 \<leftarrow> leaf_at rf t3;
            t4 \<leftarrow> (if leaf_IsFirst rest3 then do {
                     m \<leftarrow> leaf_at mf t3;
                     Some (set_page mf (LeafData (m\<lparr>l_prev_page_id := INVALID_PAGE_ID\<rparr>)) t3)
                   } else do {
                     (prf, t4) \<leftarrow> GetLeafPage (l_prev_page_id rest3) t3;
                     prev \<leftarrow> leaf_at prf t4;
                     m \<leftarrow> leaf_at mf t4;
                     let t5 = set_page prf (LeafData (prev\<lparr>l_next_page_id := l_page_id m\<rparr>)) t4;
                     m5 \<leftarrow> leaf_at mf t5;
                     prev5 \<leftarrow> leaf_at prf t5;
                     Some (set_page mf (LeafData (m5\<lparr>l_prev_page_id := l_page_id prev5\<rparr>)) t5)
                   });
            parent4 \<leftarrow> internal_at pf t4;
            parent4' \<leftarrow> internal_Remove target_index parent4;
            let t5 = set_page pf (InternalData parent4') t4;
            m5 \<leftarrow> leaf_at mf t5;
            k0 \<leftarrow> leaf_KeyAt m5 0;
            t6 \<leftarrow> UpdateParentKey fuel k0 (l_page_id m5) t5;
            Some (mf, t6)
          });
       merging \<leftarrow> leaf_at mf t2;
       let t3 = UnpinPage (l_page_id merging) True t2;
       rest3 \<leftarrow> leaf_at rf t3;
       let t4 = UnpinPage (l_page_id rest3) False t3;
       rest4 \<leftarrow> leaf_at rf t4;
       let t5 = DeletePage (l_page_id rest4) t4;
       parent5 \<leftarrow> internal_at pf t5;
       if internal_NeedRedsb parent5 then
         (if internal_IsRootPage parent5 \<and> internal_GetSize parent5 \<le> 0 then do {
            m \<leftarrow> leaf_at mf t5;
            let t6 = set_page mf (LeafData (m\<lparr>l_parent_page_id := INVALID_PAGE_ID\<rparr>)) t5;
            let t7 = DeletePage (root_page_id t6) (UnpinPage (root_page_id t6) False t6);
            m7 \<leftarrow> leaf_at mf t7;
            UpdateRootPageId 0 (t7\<lparr>root_page_id := l_page_id m7\<rparr>)
          } else Merge fuel pf t5)
       else Some (UnpinPage (i_page_id parent5) True t5)
     } else do {
       deleting \<leftarrow> internal_at rf t;
       (pf, t1) \<leftarrow> GetInternalPage (i_parent_page_id deleting) t;
       parent \<leftarrow> internal_at pf t1;
       deleting1 \<leftarrow> internal_at rf t1;
       let target_index = SearchPosition (i_page_id deleting1) parent;
       let neber_index = (if target_index = internal_GetSize parent
                          then target_index - 1 else target_index + 1);
       neber_id \<leftarrow> internal_ValueAt parent neber_index;
       (nf, t2) \<leftarrow> GetInternalPage neber_id t1;
       let is_last = (neber_index < target_index);
       (stolen, t3) \<leftarrow> StealInternal fuel rf pf nf target_index is_last t2;
       if stolen then do {
         deleting3 \<leftarrow> internal_at rf t3;
         let t4 = UnpinPage (i_page_id deleting3) True t3;
         parent4 \<leftarrow> internal_at pf t4;
         let t5 = UnpinPage (i_page_id parent4) True t4;
         neber5 \<leftarrow> internal_at nf t5;
         Some (UnpinPage (i_page_id neber5) True t5)
       } else do {
         t4 \<leftarrow>
           (if is_last then do {
              parent3 \<leftarrow> internal_at pf t3;
              pk \<leftarrow> internal_KeyAt parent3 target_index;
              deleting3 \<leftarrow> internal_at rf t3;
              deleting3' \<leftarrow> internal_SetKeyAt 0 pk deleting3;
              let t4 = set_page rf (InternalData deleting3') t3;
              neber4 \<leftarrow> internal_at nf t4;
              let neber_size = internal_GetSize neber4;
              t5 \<leftarrow> merge_children (nat (internal_GetSize deleting3' + 1)) 0 (neber_size + 1) rf nf t4;
              parent5 \<leftarrow> internal_at pf t5;
              parent5' \<leftarrow> internal_Remove target_index parent5;
              Some (set_page pf (InternalData parent5') t5)
            } else do {
              neber3 \<leftarrow> internal_at nf t3;
              deleting3 \<leftarrow> internal_at rf t3;
              let deleting_size = internal_GetSize deleting3;
              parent3 \<leftarrow> internal_at pf t3;
              pk \<leftarrow> internal_KeyAt parent3 (target_index + 1);
              neber3' \<leftarrow> internal_SetKeyAt 0 pk neber3;
              let t4 = set_page nf (InternalData (shift_right (nat (deleting_size + 1)) neber3')) t3;
              t5 \<leftarrow> merge_children (nat (deleting_size + 1)) 0 0 rf nf t4;
              parent5 \<leftarrow> internal_at pf t5;
              parent5' \<leftarrow> internal_Remove target_index parent5;
              let t6 = set_page pf (InternalData parent5') t5;
              (lk, t7) \<leftarrow> GetLeftMostKey fuel rf t6;
              parent7 \<leftarrow> internal_at pf t7;
              parent7' \<leftarrow> internal_SetKeyAt target_index lk parent7;
              Some (set_page pf (InternalData parent7') t7)
            });
         neber4 \<leftarrow> internal_at nf t4;
         let t5 = UnpinPage (i_page_id neber4) True t4;
         deleting5 \<leftarrow> internal_at rf t5;
         let t6 = UnpinPage (i_page_id deleting5) False t5;
         deleting6 \<leftarrow> internal_at rf t6;
         let t7 = DeletePage (i_page_id deleting6) t6;
         parent7 \<leftarrow> internal_at pf t7;
         if internal_NeedRedsb parent7 then
           (if internal_IsRootPage parent7 then
              (if internal_GetSize parent7 \<le> 0 then do {
                 neber7 \<leftarrow> internal_at nf t7;
                 let t8 = set_page nf (InternalData (neber7\<lparr>i_parent_page_id := INVALID_PAGE_ID\<rparr>)) t7;
                 let t9 = DeletePage (root_page_id t8) (UnpinPage (root_page_id t8) False t8);
                 neber9 \<leftarrow> internal_at nf t9;
                 UpdateRootPageId 0 (t9\<lparr>root_page_id := i_page_id neber9\<rparr>)
               } else Some (UnpinPage (root_page_id t7) False t7))
            else Merge fuel pf t7)
         else Some (UnpinPage (i_page_id parent7) True t7)
       }
     }
   }"

text \<open>
  \<^verbatim>\<open>Remove\<close> (lines 355-391), in three parts: the path that keeps the leaf as it is
  (lines 372-378), the rebalancing, steal and then merge (lines 380-390), and the
  function itself.
\<close>

definition Remove_keep :: "nat \<Rightarrow> frame_id_t \<Rightarrow> bool \<Rightarrow> BPlusTree \<Rightarrow> BPlusTree option" where
  "Remove_keep fuel df need_update t = do {
     t1 \<leftarrow> (if need_update then do {
              deleting \<leftarrow> leaf_at df t;
              k0 \<leftarrow> leaf_KeyAt deleting 0;
              UpdateParentKey fuel k0 (l_page_id deleting) t
            } else Some t);
     deleting1 \<leftarrow> leaf_at df t1;
     Some (UnpinPage (l_page_id deleting1) True t1)
   }"

definition Remove_rebalance :: "nat \<Rightarrow> frame_id_t \<Rightarrow> bool \<Rightarrow> BPlusTree \<Rightarrow> BPlusTree option" where
  "Remove_rebalance fuel df need_update t = do {
     (stolen, t1) \<leftarrow> StealSibling fuel df t;
     if stolen then Remove_keep fuel df need_update t1
     else Merge fuel df t1
   }"

definition Remove :: "nat \<Rightarrow> KeyType \<Rightarrow> BPlusTree \<Rightarrow> BPlusTree option" where
  "Remove fuel key t =
     (if IsEmpty t then Some t
      else do {
        (df, t1) \<leftarrow> FindLeafPage fuel key t;
        deleting \<leftarrow> leaf_at df t1;
        (case leaf_Remove key deleting of
           None \<Rightarrow> Some t1
         | Some (need_update, deleting') \<Rightarrow>
             (let t2 = set_page df (LeafData deleting') t1
              in if leaf_IsRootPage deleting' then Some t2
                 else if \<not> leaf_NeedRedsb deleting' then Remove_keep fuel df need_update t2
                 else Remove_rebalance fuel df need_update t2))
      })"

section \<open>The pool's invariant\<close>

text \<open>
  The contents of a page as the tree sees them: the frame's data when the page is
  resident, the device's block otherwise.
\<close>

definition logical :: "BufferPoolManagerInstance \<Rightarrow> page_id_t \<Rightarrow> page_data" where
  "logical b pid = (case page_table b pid of Some f \<Rightarrow> data (pages b f) | None \<Rightarrow> disk b pid)"

text \<open>
  The invariant of the pool: the page table maps a page id to a frame that holds this
  page, with a pin count that is not negative; a resident frame is not on the free
  list, and the free list has no frame twice; an evictable frame is resident and
  unpinned; an unpinned resident page is dirty or equal to its block on the device.
\<close>

definition pool_inv :: "BufferPoolManagerInstance \<Rightarrow> bool" where
  "pool_inv b =
     ((\<forall>pid f. page_table b pid = Some f \<longrightarrow>
          page_id (pages b f) = pid \<and> 0 \<le> pin_count (pages b f) \<and> f \<notin> set (free_list b)
          \<and> (pin_count (pages b f) \<le> 0 \<longrightarrow>
                is_dirty (pages b f) \<or> data (pages b f) = disk b pid))
      \<and> distinct (free_list b)
      \<and> (\<forall>p \<in> set (entries (replacer b)). evictable (snd p) \<longrightarrow>
            page_table b (page_id (pages b (fst p))) = Some (fst p)
            \<and> pin_count (pages b (fst p)) \<le> 0))"

text \<open>Page \<open>pid\<close> is pinned in frame \<open>f\<close> and its contents there are \<open>d\<close>.\<close>

definition holds :: "BPlusTree \<Rightarrow> page_id_t \<Rightarrow> frame_id_t \<Rightarrow> page_data \<Rightarrow> bool" where
  "holds t pid f d =
     (page_table (bpm t) pid = Some f \<and> 0 < pin_count (pages (bpm t) f) \<and> page_at f t = d)"


text \<open>
  What a step of the tree leaves alone: the tree's own fields; the pages it holds
  pinned, other than the one it works on. No page with an id the allocator has not
  handed out yet is resident.
\<close>

definition same_tree :: "BPlusTree \<Rightarrow> BPlusTree \<Rightarrow> bool" where
  "same_tree t t' =
     (index_name t' = index_name t \<and> root_page_id t' = root_page_id t
      \<and> leaf_max_size t' = leaf_max_size t \<and> internal_max_size t' = internal_max_size t)"



section \<open>Concrete states\<close>

text \<open>
  A tree as the tests set it up: a pool whose first page, the header page, has been
  created (and stays pinned by the test), and an empty tree on it.
\<close>

definition pool_with_header :: "nat \<Rightarrow> BufferPoolManagerInstance" where
  "pool_with_header n = snd (snd (NewPgImp (new_pool n 2)))"

definition new_tree :: "nat \<Rightarrow> int \<Rightarrow> int \<Rightarrow> BPlusTree" where
  "new_tree n leaf_max internal_max =
     \<lparr>index_name = ''index'', root_page_id = INVALID_PAGE_ID, bpm = pool_with_header n,
      leaf_max_size = leaf_max, internal_max_size = internal_max\<rparr>"


text \<open>Two small pools: one frame, holding page 7 pinned; the same after an unpin that marks it dirty.\<close>

definition pool_one_pinned :: BufferPoolManagerInstance where
  "pool_one_pinned = snd (FetchPgImp 7 (new_pool 1 2))"

definition pool_one_dirty :: BufferPoolManagerInstance where
  "pool_one_dirty = snd (UnpinPgImp 7 True pool_one_pinned)"






section \<open>Properties of the buffer pool\<close>

lemma new_pool_free: "free_list (new_pool 2 2) = [0, 1]"
  by (simp add: new_pool_def upt_rec)

lemma evictable_frames_empty_iff:
  "(evictable_frames r = []) = (\<forall>p \<in> set (entries r). \<not> evictable (snd p))"
  by (simp add: evictable_frames_def filter_empty_conv)

lemma Evict_None_iff: "(Evict r = None) = (evictable_frames r = [])"
  by (simp add: Evict_def Let_def split: list.splits)

lemma acquire_frame_None_iff:
  "(acquire_frame s = None) = (free_list s = [] \<and> evictable_frames (replacer s) = [])"
  by (auto simp: acquire_frame_def Let_def Evict_None_iff[symmetric] split: option.splits prod.splits)

lemma FetchPgImp_miss_None:
  "page_table s pid = None \<Longrightarrow> (fst (FetchPgImp pid s) = None) = (acquire_frame s = None)"
  by (cases "acquire_frame s") (auto simp: FetchPgImp_def Let_def)

lemma FetchPgImp_hit:
  "page_table s pid = Some f \<Longrightarrow> fst (FetchPgImp pid s) = Some f"
  by (simp add: FetchPgImp_def Let_def)

text \<open>
  Claim C7. For a page id that is not resident, \<open>FetchPgImp\<close> returns \<^verbatim>\<open>nullptr\<close> if and
  only if the free list is empty and no frame of the replacer is evictable; on a hit
  (the page id is in the page table) it never returns \<^verbatim>\<open>nullptr\<close>. The replacer's
  \<open>Evict\<close> is the one of section 4.1 of the spec.
\<close>

theorem FetchPgImp_null_iff:
  "(page_table s pid = None \<longrightarrow>
      (fst (FetchPgImp pid s) = None) =
      (free_list s = [] \<and> (\<forall>p \<in> set (entries (replacer s)). \<not> evictable (snd p))))
   \<and> (page_table s pid \<noteq> None \<longrightarrow> fst (FetchPgImp pid s) \<noteq> None)"
  using FetchPgImp_miss_None[of s pid] FetchPgImp_hit[of s pid]
  by (auto simp: acquire_frame_None_iff evictable_frames_empty_iff)

lemma wrap_page_id_in_range:
  assumes "- 2147483648 \<le> x" and "x < 2147483647"
  shows "wrap_page_id (x + 1) = x + 1"
proof -
  have "(x + 1 + 2147483648) mod 4294967296 = x + 1 + 2147483648"
    by (rule mod_pos_pos_trivial) (use assms in simp_all)
  then show ?thesis unfolding wrap_page_id_def by (simp only: add_diff_cancel)
qed

lemma wrap_page_id_neq: "wrap_page_id (x + 1) \<noteq> x"
proof
  assume "wrap_page_id (x + 1) = x"
  then have "(x + 1 + 2147483648) mod 4294967296 - 2147483648 = x"
    unfolding wrap_page_id_def .
  then have a: "(x + 1 + 2147483648) mod 4294967296 = x + 2147483648"
    by (simp only: diff_eq_eq)
  have b: "(x + 1 + 2147483648) - (x + 2147483648) = (1::int)" by simp
  have "(4294967296::int) dvd (x + 1 + 2147483648) - (x + 1 + 2147483648) mod 4294967296"
    by (rule dvd_minus_mod)
  then have "(4294967296::int) dvd 1" unfolding a b .
  then show False by simp
qed

lemma wrap_page_id_max: "wrap_page_id 2147483648 = - 2147483648"
  unfolding wrap_page_id_def by simp

lemma wrap_page_id_one: "wrap_page_id 1 = 1"
  unfolding wrap_page_id_def by simp

text \<open>
  Claim C10. \<open>NewPgImp\<close> always hands out the counter's value through its
  out-parameter and advances the counter, before it looks for a frame: a call that
  returns \<^verbatim>\<open>nullptr\<close> (no free frame, no evictable frame) changes nothing but the
  counter, and the id it consumed is the one written to the out-parameter. The advance
  is the increment of the 4-byte \<^verbatim>\<open>page_id_t\<close>: the counter never keeps its value, it
  grows by one below 2147483647, and from 2147483647 it wraps around to -2147483648.
\<close>

theorem NewPgImp_consumes_page_id:
  "fst (NewPgImp s) = pool_next_page_id s
   \<and> pool_next_page_id (snd (snd (NewPgImp s))) = wrap_page_id (pool_next_page_id s + 1)
   \<and> pool_next_page_id (snd (snd (NewPgImp s))) \<noteq> pool_next_page_id s
   \<and> (- 2147483648 \<le> pool_next_page_id s \<and> pool_next_page_id s < 2147483647 \<longrightarrow>
        pool_next_page_id (snd (snd (NewPgImp s))) = pool_next_page_id s + 1)
   \<and> (pool_next_page_id s = 2147483647 \<longrightarrow>
        pool_next_page_id (snd (snd (NewPgImp s))) = - 2147483648)
   \<and> (free_list s = [] \<and> evictable_frames (replacer s) = [] \<longrightarrow>
        NewPgImp s = (pool_next_page_id s, None,
                      s\<lparr>pool_next_page_id := wrap_page_id (pool_next_page_id s + 1)\<rparr>))"
proof -
  have a: "fst (NewPgImp s) = pool_next_page_id s"
    and b: "pool_next_page_id (snd (snd (NewPgImp s))) = wrap_page_id (pool_next_page_id s + 1)"
    by (auto simp: NewPgImp_def AllocatePage_def Let_def acquire_frame_def
        ResetMemory_def emit_def WritePage_def split: option.splits prod.splits)
  have c: "free_list s = [] \<and> evictable_frames (replacer s) = [] \<longrightarrow>
        NewPgImp s = (pool_next_page_id s, None,
                      s\<lparr>pool_next_page_id := wrap_page_id (pool_next_page_id s + 1)\<rparr>)"
    by (auto simp: NewPgImp_def AllocatePage_def Let_def acquire_frame_def
        Evict_None_iff[symmetric] split: option.splits prod.splits)
  have d: "pool_next_page_id s = 2147483647 \<longrightarrow> wrap_page_id (pool_next_page_id s + 1) = - 2147483648"
    by (auto simp: wrap_page_id_max)
  show ?thesis
    using a b c d wrap_page_id_in_range[of "pool_next_page_id s"]
      wrap_page_id_neq[of "pool_next_page_id s"]
    by simp
qed

lemma pool_one_pinned_simps:
  "page_table pool_one_pinned = [7 \<mapsto> 0]"
  "free_list pool_one_pinned = []"
  "entries (replacer pool_one_pinned) = [(0, \<lparr>history = [0], evictable = False\<rparr>)]"
  "pin_count (pages pool_one_pinned 0) = 1"
  by (simp_all add: pool_one_pinned_def FetchPgImp_def new_pool_def acquire_frame_def Let_def
        ResetMemory_def ReadPage_def emit_def RecordAccess_def SetEvictable_def)

theorem FetchPgImp_null_iff_witness:
  "page_table pool_one_pinned 8 = None \<and> fst (FetchPgImp 8 pool_one_pinned) = None
   \<and> free_list pool_one_pinned = []
   \<and> page_table pool_one_pinned 7 = Some 0 \<and> fst (FetchPgImp 7 pool_one_pinned) \<noteq> None"
  using FetchPgImp_null_iff[of pool_one_pinned 8] FetchPgImp_null_iff[of pool_one_pinned 7]
  by (simp add: pool_one_pinned_simps)

theorem NewPgImp_consumes_page_id_witness:
  "free_list pool_one_pinned = [] \<and> evictable_frames (replacer pool_one_pinned) = []
   \<and> NewPgImp pool_one_pinned = (0, None, pool_one_pinned\<lparr>pool_next_page_id := 1\<rparr>)
   \<and> NewPgImp (pool_one_pinned\<lparr>pool_next_page_id := 2147483647\<rparr>)
       = (2147483647, None, pool_one_pinned\<lparr>pool_next_page_id := - 2147483648\<rparr>)"
proof -
  have n: "pool_next_page_id pool_one_pinned = 0"
    by (simp add: pool_one_pinned_def FetchPgImp_def new_pool_def acquire_frame_def Let_def
        ResetMemory_def ReadPage_def emit_def)
  have e: "free_list pool_one_pinned = []" "evictable_frames (replacer pool_one_pinned) = []"
    by (simp_all add: pool_one_pinned_simps evictable_frames_def)
  show ?thesis
    using NewPgImp_consumes_page_id[of pool_one_pinned]
      NewPgImp_consumes_page_id[of "pool_one_pinned\<lparr>pool_next_page_id := 2147483647\<rparr>"]
    by (simp add: e n wrap_page_id_one wrap_page_id_max)
qed

lemma acquire_frame_evict:
  "free_list s = [] \<Longrightarrow> Evict (replacer s) = Some (f, r') \<Longrightarrow>
   acquire_frame s =
     Some (f, if is_dirty (pages s f)
              then s\<lparr>replacer := r',
                     disk := (disk s)(page_id (pages s f) := data (pages s f)),
                     events := events s @ [EvWritePage (page_id (pages s f)) (data (pages s f))],
                     page_table := (page_table s)(page_id (pages s f) := None)\<rparr>
              else s\<lparr>replacer := r',
                     page_table := (page_table s)(page_id (pages s f) := None)\<rparr>)"
  by (simp add: acquire_frame_def Let_def WritePage_def emit_def)

text \<open>
  Claim C8. When \<open>NewPgImp\<close> or \<open>FetchPgImp\<close> (on a miss) evicts a victim frame whose page
  is dirty, the device write of the victim's page id and contents is the first thing
  the call does to the outside: it comes before the frame's memory is reset and, for
  a fetch, before the requested block is read into the frame.
\<close>

theorem dirty_victim_written_before_reuse:
  assumes "free_list s = []" and "Evict (replacer s) = Some (f, r')" and "is_dirty (pages s f)"
  shows "fst (snd (NewPgImp s)) = Some f
     \<and> events (snd (snd (NewPgImp s))) =
         events s @ [EvWritePage (page_id (pages s f)) (data (pages s f)), EvResetMemory f]
     \<and> (page_table s pid = None \<longrightarrow>
          fst (FetchPgImp pid s) = Some f
          \<and> events (snd (FetchPgImp pid s)) =
              events s @ [EvWritePage (page_id (pages s f)) (data (pages s f)),
                          EvResetMemory f, EvReadPage pid])"
  using assms
  by (simp add: NewPgImp_def FetchPgImp_def AllocatePage_def acquire_frame_def Let_def
        WritePage_def ResetMemory_def ReadPage_def emit_def)

text \<open>
  Claim C9. \<open>DeletePgImp\<close> returns true when the page is not resident; returns false and
  leaves the whole pool as it was when the page is resident and pinned; otherwise it
  returns true, drops the page-table entry and the frame's replacer entry, clears the
  page (zeroed contents, invalid page id, no pins, clean), appends the frame to the
  free list and deallocates the page id.
\<close>

theorem DeletePgImp_cases:
  "(page_table s pid = None \<longrightarrow> fst (DeletePgImp pid s) = True)
   \<and> (\<forall>f. page_table s pid = Some f \<and> pin_count (pages s f) > 0 \<longrightarrow>
          DeletePgImp pid s = (False, s))
   \<and> (\<forall>f. page_table s pid = Some f \<and> \<not> pin_count (pages s f) > 0 \<longrightarrow>
          fst (DeletePgImp pid s) = True
          \<and> page_table (snd (DeletePgImp pid s)) = (page_table s)(pid := None)
          \<and> map_of (entries (replacer (snd (DeletePgImp pid s)))) f = None
          \<and> pages (snd (DeletePgImp pid s)) f =
              \<lparr>data = ZeroPage, page_id = INVALID_PAGE_ID, pin_count = 0, is_dirty = False\<rparr>
          \<and> free_list (snd (DeletePgImp pid s)) = free_list s @ [f]
          \<and> events (snd (DeletePgImp pid s)) = events s @ [EvResetMemory f, EvDeallocatePage pid])"
  by (auto simp: DeletePgImp_def Let_def ResetMemory_def DeallocatePage_def emit_def
        ReplacerRemove_def map_of_eq_None_iff)

lemma pool_one_dirty_simps:
  "page_table pool_one_dirty = [7 \<mapsto> 0]"
  "free_list pool_one_dirty = []"
  "entries (replacer pool_one_dirty) = [(0, \<lparr>history = [0], evictable = True\<rparr>)]"
  "pages pool_one_dirty 0 = \<lparr>data = ZeroPage, page_id = 7, pin_count = 0, is_dirty = True\<rparr>"
  "events pool_one_dirty = [EvResetMemory 0, EvReadPage 7]"
  by (simp_all add: pool_one_dirty_def pool_one_pinned_def UnpinPgImp_def FetchPgImp_def
        new_pool_def acquire_frame_def Let_def
        ResetMemory_def ReadPage_def emit_def RecordAccess_def SetEvictable_def)

lemma pool_one_dirty_Evict:
  "Evict (replacer pool_one_dirty) = Some (0, ReplacerRemove 0 (replacer pool_one_dirty))"
  by (simp add: Evict_def evictable_frames_def pool_one_dirty_simps)

theorem dirty_victim_written_before_reuse_witness:
  "is_dirty (pages pool_one_dirty 0)
   \<and> fst (snd (NewPgImp pool_one_dirty)) = Some 0
   \<and> events (snd (snd (NewPgImp pool_one_dirty))) =
       [EvResetMemory 0, EvReadPage 7, EvWritePage 7 ZeroPage, EvResetMemory 0]
   \<and> fst (FetchPgImp 8 pool_one_dirty) = Some 0
   \<and> events (snd (FetchPgImp 8 pool_one_dirty)) =
       [EvResetMemory 0, EvReadPage 7, EvWritePage 7 ZeroPage, EvResetMemory 0, EvReadPage 8]"
  using dirty_victim_written_before_reuse[OF _ pool_one_dirty_Evict, of 8]
  by (simp add: pool_one_dirty_simps)

theorem DeletePgImp_cases_witness:
  "fst (DeletePgImp 8 pool_one_pinned) = True
   \<and> DeletePgImp 7 pool_one_pinned = (False, pool_one_pinned)
   \<and> fst (DeletePgImp 7 pool_one_dirty) = True
   \<and> page_table (snd (DeletePgImp 7 pool_one_dirty)) = Map.empty
   \<and> free_list (snd (DeletePgImp 7 pool_one_dirty)) = [0]
   \<and> pages (snd (DeletePgImp 7 pool_one_dirty)) 0 =
       \<lparr>data = ZeroPage, page_id = INVALID_PAGE_ID, pin_count = 0, is_dirty = False\<rparr>"
  using DeletePgImp_cases[of pool_one_pinned 8] DeletePgImp_cases[of pool_one_pinned 7]
    DeletePgImp_cases[of pool_one_dirty 7]
  by (simp add: pool_one_pinned_simps pool_one_dirty_simps)

section \<open>Properties of the tree\<close>

text \<open>Evaluation by the simplifier: the continuation of a bind is not rewritten before its argument is a value.\<close>

lemma bind_weak_cong: "m = m' \<Longrightarrow> Option.bind m f = Option.bind m' f"
  by simp

lemma case_prod_weak_cong: "p = p' \<Longrightarrow> case_prod f p = case_prod f p'"
  by simp

lemmas pool_defs = NewPgImp_def FetchPgImp_def UnpinPgImp_def DeletePgImp_def AllocatePage_def
  wrap_page_id_def
  acquire_frame_def ResetMemory_def ReadPage_def WritePage_def DeallocatePage_def emit_def
  RecordAccess_def SetEvictable_def ReplacerRemove_def Evict_def evictable_frames_def
  evict_rank_def rank_less_def new_pool_def INVALID_PAGE_ID_def HEADER_PAGE_ID_def

lemmas page_defs = cdiv_def IsLeafPage_def GetPageId_def GetParentPageId_def SetParentPageId_def
  leaf_GetSize_def leaf_NeedSplit_def leaf_NeedRedsb_def leaf_IsLast_def LeafInit_def
  leaf_IsRootPage_def leaf_IsFirst_def leaf_KeyAt_def has_key_def leaf_Insert_def leaf_Remove_def
  min_entries_def leaf_StealFirst_def leaf_StealLast_def leaf_InsertFirst_def leaf_InsertLast_def
  leaf_MergeFromRight_def leaf_MergeFromLeft_def InternalInit_def internal_GetSize_def
  internal_NeedSplit_def internal_NeedRedsb_def internal_IsRootPage_def slot_at_def
  internal_KeyAt_def internal_ValueAt_def internal_SetKeyAt_def SetFirstPoint_def
  internal_Insert_def SearchPosition_def internal_Remove_def internal_StealFirst_def
  internal_StealLast_def internal_InsertFirst_def internal_InsertLast_def InsertRecord_def
  UpdateRecord_def header_records_def comparator_def write_slot_def internal_DecreaseSize_def
  leaf_DecreaseSize_def shift_right_def

lemmas tree_defs = IsEmpty_def page_at_def set_page_def leaf_at_def internal_at_def GetPage_def
  GetInternalPage_def GetLeafPage_def NewPage_def UnpinPage_def DeletePage_def
  UpdateRootPageId_def next_page_id_of_def FindLeafPage_def GetValue_def UpdateParentId_def
  SplitInternal_parent_def SplitInternal_move_def SplitInternal_body_def
  SplitLeaf_parent_def SplitLeaf_move_def SplitLeaf_body_def SplitLeaf_overflow_def SplitLeaf_def
  Insert_def UpdateParentKey_def GetLeftMostKey_def StealSibling_def
  StealInternal_def Remove_keep_def Remove_rebalance_def Remove_def
  pool_with_header_def new_tree_def

text \<open>
  Claim C6. The claim: removing the only key of a tree whose root is a leaf leaves the
  tree empty. The code: \<^verbatim>\<open>Remove\<close> returns at line 368 as soon as the leaf is the root;
  the root page id is never invalidated. After \<open>Insert(10)\<close> and \<open>Remove(10)\<close> on a new tree
  the root page id is still 1, \<open>IsEmpty\<close> is false and the root leaf holds no entry.
\<close>

theorem Remove_only_key_not_empty:
  "map_option (\<lambda>t. (IsEmpty t, root_page_id t, leaf_at 2 t))
     (Option.bind (Insert 1 10 100 (new_tree 4 4 3)) (\<lambda>(b, t). Remove 1 10 t))
   = Some (False, 1, Some (LeafInit 1 INVALID_PAGE_ID 4))"
  by (simp add: pool_defs page_defs tree_defs Let_def upt_rec cong: bind_weak_cong case_prod_weak_cong)


text \<open>
  Claim C4. The claim: every page a tree operation obtains from the pool is unpinned
  before the operation returns. The code: \<^verbatim>\<open>Remove\<close> returns at lines 365 and 368 (key
  absent; leaf is the root) without unpinning the leaf that \<^verbatim>\<open>FindLeafPage\<close> pinned.
  After \<open>Insert(10)\<close> the root page (page 1, frame 2) has pin count 0; after a following
  \<open>Remove(10)\<close>, or \<open>Remove(11)\<close>, it has pin count 1.
\<close>

theorem Remove_root_leaf_leaves_pin:
  "map_option (\<lambda>(b, t). (page_table (bpm t) 1, pin_count (pages (bpm t) 2)))
     (Insert 1 10 100 (new_tree 4 4 3)) = Some (Some 2, 0)
   \<and> map_option (\<lambda>t. (page_table (bpm t) 1, pin_count (pages (bpm t) 2)))
     (Option.bind (Insert 1 10 100 (new_tree 4 4 3)) (\<lambda>(b, t). Remove 1 10 t)) = Some (Some 2, 1)
   \<and> map_option (\<lambda>t. (page_table (bpm t) 1, pin_count (pages (bpm t) 2)))
     (Option.bind (Insert 1 10 100 (new_tree 4 4 3)) (\<lambda>(b, t). Remove 1 11 t)) = Some (Some 2, 1)"
  by (simp add: pool_defs page_defs tree_defs Let_def upt_rec cong: bind_weak_cong case_prod_weak_cong)


















section \<open>The pool's invariant under the steps of the tree\<close>




lemma logical_resident: "page_table b pid = Some f \<Longrightarrow> logical b pid = data (pages b f)"
  by (simp add: logical_def)

lemma pool_invD:
  assumes "pool_inv b" and "page_table b pid = Some f"
  shows "page_id (pages b f) = pid" and "0 \<le> pin_count (pages b f)"
    and "f \<notin> set (free_list b)"
    and "pin_count (pages b f) \<le> 0 \<Longrightarrow> is_dirty (pages b f) \<or> data (pages b f) = disk b pid"
  using assms unfolding pool_inv_def by blast+

















subsection \<open>The tree's steps on the pool\<close>

lemma holdsD:
  assumes "holds t pid f d"
  shows "page_table (bpm t) pid = Some f" and "0 < pin_count (pages (bpm t) f)"
    and "page_at f t = d"
  using assms by (simp_all add: holds_def)


lemma holds_frame_inj:
  assumes "pool_inv (bpm t)" and "holds t pid f d" and "holds t pid' f' d'" and "pid \<noteq> pid'"
  shows "f \<noteq> f'"
  using pool_invD(1)[OF assms(1) holdsD(1)[OF assms(2)]]
        pool_invD(1)[OF assms(1) holdsD(1)[OF assms(3)]] assms(4) by auto








lemma same_tree_refl: "same_tree t t"
  by (simp add: same_tree_def)



lemma holds_root_update [simp]: "holds (t\<lparr>root_page_id := r\<rparr>) pid f d = holds t pid f d"
  by (simp add: holds_def page_at_def)



section \<open>The leaf split\<close>















end
